theory Spec2Isabelle
  imports Main "HOL-Library.Word" "HOL-Library.Sublist"
begin

section \<open>Scripted map formats: a shallow embedding of scriptedmapformat.cpp\<close>

text \<open>
  The unit bridges script objects and the host's map formats. Everything the unit calls but
  does not define (the script engine's values, the file devices, the save file, the plugin
  registry) is modelled here as data and explicit state:
  \<^item> a script value is a \<open>QJSValue\<close> datatype; calling a script function is a lookup in the
    environment's \<open>script\<close>, a function of the callee, the arguments and the files it can see;
  \<^item> the files on disk are a map from paths to byte lists;
  \<^item> failures of the file devices are inputs: the environment says whether opening, writing
    or committing fails and with which error string;
  \<^item> \<open>mError\<close>, the registry and the errors raised through the script manager are fields of
    records that the operations return updated.
\<close>

subsection \<open>Strings, bytes and files\<close>

type_synonym QString = string
type_synonym byte = "8 word"
type_synonym QByteArray = "byte list"
type_synonym filesystem = "QString \<rightharpoonup> QByteArray"

text \<open>\<open>tr\<close> looks a message up in the translation catalogue; with no catalogue loaded it is
  the source text.\<close>

definition tr :: "QString \<Rightarrow> QString" where
  "tr s = s"

subsection \<open>ScriptFile\<close>

record ScriptFile =
  mFilePath :: QString
  mFileError :: QString

subsection \<open>Script values\<close>

datatype 'm QObject =
    EditableMapObject 'm
  | ScriptFileObject ScriptFile
  | OtherQObject nat

text \<open>\<open>JSNumber\<close> covers the integral numbers; \<open>JSError\<close> carries the text that
  \<open>toString()\<close> yields for the error; \<open>JSFunction\<close> names a function of the script.\<close>

datatype 'm QJSValue =
    JSUndefined
  | JSNull
  | JSBool bool
  | JSNumber int
  | JSString QString
  | JSArrayBuffer QByteArray
  | JSFunction nat
  | JSError QString
  | JSQObject "'m QObject"
  | JSObject "(QString \<times> 'm QJSValue) list"

fun isString :: "'m QJSValue \<Rightarrow> bool" where
  "isString (JSString s) = True"
| "isString v = False"

fun isCallable :: "'m QJSValue \<Rightarrow> bool" where
  "isCallable (JSFunction f) = True"
| "isCallable v = False"

fun isError :: "'m QJSValue \<Rightarrow> bool" where
  "isError (JSError e) = True"
| "isError v = False"

text \<open>\<open>property\<close> reads a named property; a missing one is undefined. Only the own
  properties of plain objects are modelled.\<close>

fun property :: "'m QJSValue \<Rightarrow> QString \<Rightarrow> 'm QJSValue" where
  "property (JSObject props) name =
     (case map_of props name of Some v \<Rightarrow> v | None \<Rightarrow> JSUndefined)"
| "property v name = JSUndefined"

function string_of_nat :: "nat \<Rightarrow> string" where
  "string_of_nat n =
     (if n < 10 then [char_of (48 + n)]
      else string_of_nat (n div 10) @ [char_of (48 + n mod 10)])"
  by pat_completeness auto
termination
  by (relation "measure id") auto

definition string_of_int :: "int \<Rightarrow> string" where
  "string_of_int i =
     (if i < 0 then CHR ''-'' # string_of_nat (nat (- i)) else string_of_nat (nat i))"

fun toString :: "'m QJSValue \<Rightarrow> QString" where
  "toString JSUndefined = ''undefined''"
| "toString JSNull = ''null''"
| "toString (JSBool b) = (if b then ''true'' else ''false'')"
| "toString (JSNumber n) = string_of_int n"
| "toString (JSString s) = s"
| "toString (JSArrayBuffer b) = ''[object ArrayBuffer]''"
| "toString (JSFunction f) = ''function() { [code] }''"
| "toString (JSError e) = e"
| "toString (JSQObject q) = ''[object QObject]''"
| "toString (JSObject props) = ''[object Object]''"

fun toQObject :: "'m QJSValue \<Rightarrow> 'm QObject option" where
  "toQObject (JSQObject q) = Some q"
| "toQObject v = None"

text \<open>\<open>qobject_cast<EditableMap*>\<close>: the map behind the object when it is an editable map,
  a null pointer (\<open>None\<close>) otherwise.\<close>

fun qobject_cast_EditableMap :: "'m QObject option \<Rightarrow> 'm option" where
  "qobject_cast_EditableMap (Some (EditableMapObject m)) = Some m"
| "qobject_cast_EditableMap q = None"

text \<open>\<open>qjsvalue_cast<QByteArray>\<close>: the bytes of an array buffer; any other value gives the
  null byte array, \<open>None\<close>.\<close>

fun qjsvalue_cast_QByteArray :: "'m QJSValue \<Rightarrow> QByteArray option" where
  "qjsvalue_cast_QByteArray (JSArrayBuffer b) = Some b"
| "qjsvalue_cast_QByteArray v = None"

text \<open>The script: what each of its functions returns for given arguments, seeing the files.
  A function that throws returns the thrown error value, as \<open>QJSValue::call\<close> does; calling
  a value that is no function returns undefined.\<close>

type_synonym 'm script = "nat \<Rightarrow> 'm QJSValue list \<Rightarrow> filesystem \<Rightarrow> 'm QJSValue"

fun QJSValue_call :: "'m script \<Rightarrow> filesystem \<Rightarrow> 'm QJSValue \<Rightarrow> 'm QJSValue list \<Rightarrow> 'm QJSValue" where
  "QJSValue_call scr fs (JSFunction f) args = scr f args fs"
| "QJSValue_call scr fs v args = JSUndefined"

text \<open>A script all of whose functions return the same value.\<close>

definition const_script :: "'m QJSValue \<Rightarrow> 'm script" where
  "const_script v f args fs = v"

subsection \<open>The environment of a call\<close>

record 'm environment =
  script :: "'m script"
  windows :: bool
  open_fault :: "QString option"
  write_fault :: "QString option"
  commit_fault :: "QString option"

subsection \<open>Text mode\<close>

text \<open>A text stream over a device opened with the \<open>Text\<close> flag translates line ends: on
  writing, on Windows, every line feed becomes carriage return, line feed; on reading, the
  carriage returns are dropped. Characters are single bytes in this model.\<close>

definition CR :: char where
  "CR = CHR 0x0D"

definition LF :: char where
  "LF = CHR 0x0A"

definition crlf :: "QString \<Rightarrow> QString" where
  "crlf s = concat (map (\<lambda>c. if c = LF then [CR, LF] else [c]) s)"

definition strip_cr :: "QString \<Rightarrow> QString" where
  "strip_cr s = filter (\<lambda>c. c \<noteq> CR) s"

definition encode :: "QString \<Rightarrow> QByteArray" where
  "encode s = map of_char s"

definition decode :: "QByteArray \<Rightarrow> QString" where
  "decode bs = map (\<lambda>b. char_of (unat b)) bs"

datatype OpenModeFlag = ReadOnly | WriteOnly | Text

subsection \<open>ScriptFile::readAsText, ScriptFile::readAsBinary\<close>

text \<open>Opening a \<open>QFile\<close> for reading succeeds when the file exists.\<close>

definition QFile_open_read :: "filesystem \<Rightarrow> QString \<Rightarrow> QString + QByteArray" where
  "QFile_open_read fs path =
     (case fs path of None \<Rightarrow> Inl ''No such file or directory'' | Some bytes \<Rightarrow> Inr bytes)"

definition QTextStream_readAll :: "OpenModeFlag set \<Rightarrow> QByteArray \<Rightarrow> QString" where
  "QTextStream_readAll mode bytes =
     (if Text \<in> mode then strip_cr (decode bytes) else decode bytes)"

definition readAsText :: "filesystem \<Rightarrow> ScriptFile \<Rightarrow> QString \<times> ScriptFile" where
  "readAsText fs file =
     (case QFile_open_read fs (mFilePath file) of
        Inr bytes \<Rightarrow> (QTextStream_readAll {ReadOnly, Text} bytes, file)
      | Inl e \<Rightarrow> ([], file\<lparr>mFileError := e\<rparr>))"

definition readAsBinary :: "filesystem \<Rightarrow> ScriptFile \<Rightarrow> QByteArray \<times> ScriptFile" where
  "readAsBinary fs file =
     (case QFile_open_read fs (mFilePath file) of
        Inr bytes \<Rightarrow> (bytes, file)
      | Inl e \<Rightarrow> ([], file\<lparr>mFileError := e\<rparr>))"

subsection \<open>SaveFile\<close>

datatype FileError = NoError | ReadError | WriteError | FatalError | ResourceError
  | OpenError | AbortError | TimeOutError | UnspecifiedError | RemoveError | RenameError
  | PositionError | ResizeError | PermissionsError | CopyError

text \<open>Modelled from the spec: the \<open>SaveFile\<close> class (savefile.h) is not part of this source.
  It is the spec's atomic save primitive: opening acquires a temporary staging location,
  writes go to it, and commit atomically replaces the destination by the staged content; a
  failed write or commit leaves the destination as it was and is reported by the device's
  error and error string. The record holds the destination's name, the mode of the open
  device, the staged content and the device's error state.\<close>

record SaveFile =
  saveName :: QString
  openMode :: "OpenModeFlag set"
  staged :: QByteArray
  fileError :: FileError
  errorString :: QString

text \<open>Modelled from the spec: a new save file has staged nothing and has no error.\<close>

definition SaveFile_new :: "QString \<Rightarrow> SaveFile" where
  "SaveFile_new name =
     \<lparr>saveName = name, openMode = {}, staged = [], fileError = NoError,
      errorString = ''Unknown error''\<rparr>"

text \<open>Modelled from the spec: opening for writing acquires the staging location, or fails
  when the environment says so.\<close>

definition SaveFile_open :: "'m environment \<Rightarrow> OpenModeFlag set \<Rightarrow> SaveFile \<Rightarrow> bool \<times> SaveFile" where
  "SaveFile_open env mode file =
     (case open_fault env of
        Some e \<Rightarrow> (False, file\<lparr>fileError := OpenError, errorString := e\<rparr>)
      | None \<Rightarrow> (True, file\<lparr>openMode := mode\<rparr>))"

text \<open>Modelled from the spec: writing appends to the staged content, or fails with the
  environment's error string and stages nothing.\<close>

definition device_write :: "'m environment \<Rightarrow> QByteArray \<Rightarrow> SaveFile \<Rightarrow> SaveFile" where
  "device_write env bytes file =
     (case write_fault env of
        Some e \<Rightarrow> file\<lparr>fileError := WriteError, errorString := e\<rparr>
      | None \<Rightarrow> file\<lparr>staged := staged file @ bytes\<rparr>)"

text \<open>Modelled from the spec: commit replaces the destination by the staged content, or
  fails with the environment's error string and leaves the files as they are.\<close>

definition SaveFile_commit :: "'m environment \<Rightarrow> filesystem \<Rightarrow> SaveFile \<Rightarrow> bool \<times> SaveFile \<times> filesystem" where
  "SaveFile_commit env fs file =
     (case commit_fault env of
        Some e \<Rightarrow> (False, file\<lparr>fileError := RenameError, errorString := e\<rparr>, fs)
      | None \<Rightarrow> (True, file, fs(saveName file \<mapsto> staged file)))"

text \<open>\<open>QTextStream out(device); out << s\<close>, flushed when the stream goes out of scope.\<close>

definition QTextStream_write :: "'m environment \<Rightarrow> QString \<Rightarrow> SaveFile \<Rightarrow> SaveFile" where
  "QTextStream_write env s file =
     device_write env
       (encode (if Text \<in> openMode file \<and> windows env then crlf s else s)) file"

subsection \<open>ScriptedMapFormat\<close>

record 'm ScriptedMapFormat =
  mShortName :: QString
  mObject :: "'m QJSValue"
  mError :: QString

text \<open>Modelled from the spec: \<open>PluginManager\<close> (pluginmanager.h) and \<open>ScriptManager\<close>
  (scriptmanager.h) are not part of this source. The host holds what they hold: the objects
  registered with the plugin manager, the spec's registry with \<open>add\<close> and \<open>remove\<close> of a
  format, and the errors raised through the script manager.\<close>

record 'm host =
  raised :: "QString list"
  objects :: "'m ScriptedMapFormat list"

text \<open>Modelled from the spec: \<open>ScriptManager::throwError\<close> is not part of this source; it
  raises the message through the script environment's error channel.\<close>

definition throwError :: "QString \<Rightarrow> 'm host \<Rightarrow> 'm host" where
  "throwError msg h = h\<lparr>raised := raised h @ [msg]\<rparr>"

text \<open>Modelled from the spec: \<open>ScriptManager::checkError\<close> is not part of this source; it is
  the script environment's error predicate on the result of a call.\<close>

definition checkError :: "'m QJSValue \<Rightarrow> bool" where
  "checkError v = isError v"

text \<open>The constructor registers the new format with the plugin manager, the destructor
  removes it. A fresh \<open>mError\<close> is the empty string.\<close>

definition ScriptedMapFormat_new :: "QString \<Rightarrow> 'm QJSValue \<Rightarrow> 'm host \<Rightarrow> 'm ScriptedMapFormat \<times> 'm host" where
  "ScriptedMapFormat_new shortName object h =
     (let this = \<lparr>mShortName = shortName, mObject = object, mError = []\<rparr>
      in (this, h\<lparr>objects := objects h @ [this]\<rparr>))"

definition ScriptedMapFormat_delete :: "'m ScriptedMapFormat \<Rightarrow> 'm host \<Rightarrow> 'm host" where
  "ScriptedMapFormat_delete this h = h\<lparr>objects := remove1 this (objects h)\<rparr>"

text \<open>Modelled from the spec: the flags \<open>FileFormat::Capabilities\<close> (mapformat.h) are not part
  of this source; a value is a set of the two bits \<open>Read\<close> and \<open>Write\<close>.\<close>

datatype Capability = Read | Write

definition capabilities :: "'m ScriptedMapFormat \<Rightarrow> Capability set" where
  "capabilities this =
     (let c0 = {};
          c1 = (if isCallable (property (mObject this) ''read'') then c0 \<union> {Read} else c0);
          c2 = (if isCallable (property (mObject this) ''write'') then c1 \<union> {Write} else c1)
      in c2)"

definition nameFilter :: "'m ScriptedMapFormat \<Rightarrow> QString" where
  "nameFilter this =
     (let name = toString (property (mObject this) ''name'');
          extension = toString (property (mObject this) ''extension'')
      in name @ '' (*.'' @ extension @ '')'')"

text \<open>\<open>QString::endsWith\<close>, case sensitive.\<close>

definition endsWith :: "QString \<Rightarrow> QString \<Rightarrow> bool" where
  "endsWith s t = (length t \<le> length s \<and> drop (length s - length t) s = t)"

definition supportsFile :: "'m ScriptedMapFormat \<Rightarrow> QString \<Rightarrow> bool" where
  "supportsFile this fileName =
     (let extension = toString (property (mObject this) ''extension'');
          extension = CHR ''.'' # extension
      in endsWith fileName extension)"

text \<open>Modelled from the spec: \<open>Map::clone\<close> (map.h) is not part of this source; the clone of
  a map is an equal map, owned by the caller.\<close>

definition clone :: "'m \<Rightarrow> 'm" where
  "clone m = m"

definition ScriptedMapFormat_read :: "'m environment \<Rightarrow> filesystem \<Rightarrow> 'm ScriptedMapFormat \<Rightarrow> QString
    \<Rightarrow> 'm option \<times> 'm ScriptedMapFormat" where
  "ScriptedMapFormat_read env fs this0 fileName =
     (let this = this0\<lparr>mError := []\<rparr>;
          readProperty = property (mObject this) ''read'';
          file = \<lparr>mFilePath = fileName, mFileError = []\<rparr>;
          arguments = [JSQObject (ScriptFileObject file)];
          resultValue = QJSValue_call (script env) fs readProperty arguments
      in if checkError resultValue then (None, this\<lparr>mError := toString resultValue\<rparr>)
         else (case qobject_cast_EditableMap (toQObject resultValue) of
                 Some m \<Rightarrow> (Some (clone m), this)
               | None \<Rightarrow> (None, this)))"

definition ScriptedMapFormat_write :: "'m environment \<Rightarrow> filesystem \<Rightarrow> 'm ScriptedMapFormat \<Rightarrow> 'm \<Rightarrow> QString \<Rightarrow> int
    \<Rightarrow> bool \<times> 'm ScriptedMapFormat \<times> filesystem" where
  "ScriptedMapFormat_write env fs this0 m fileName options =
     (let this = this0\<lparr>mError := []\<rparr>;
          writeProperty = property (mObject this) ''write'';
          arguments = [JSQObject (EditableMapObject m), JSString fileName, JSNumber options];
          resultValue = QJSValue_call (script env) fs writeProperty arguments
      in if checkError resultValue then (False, this\<lparr>mError := toString resultValue\<rparr>, fs)
         else
           let isStr = isString resultValue;
               bytes = (if isStr then None else qjsvalue_cast_QByteArray resultValue)
           in if \<not> isStr \<and> bytes = None
              then (False,
                    this\<lparr>mError := tr ''Invalid return value for 'write' (string or ArrayBuffer expected)''\<rparr>,
                    fs)
              else
                let file = SaveFile_new fileName;
                    mode = (if isStr then {WriteOnly, Text} else {WriteOnly})
                in (case SaveFile_open env mode file of
                      (False, file1) \<Rightarrow>
                        (False, this\<lparr>mError := tr ''Could not open file for writing.''\<rparr>, fs)
                    | (True, file1) \<Rightarrow>
                        let file2 =
                              (if isStr then QTextStream_write env (toString resultValue) file1
                               else device_write env (case bytes of Some b \<Rightarrow> b | None \<Rightarrow> []) file1)
                        in if fileError file2 \<noteq> NoError
                           then (False, this\<lparr>mError := errorString file2\<rparr>, fs)
                           else (case SaveFile_commit env fs file2 of
                                   (False, file3, fs') \<Rightarrow>
                                     (False, this\<lparr>mError := errorString file3\<rparr>, fs')
                                 | (True, file3, fs') \<Rightarrow> (True, this, fs'))))"

definition validateMapFormatObject :: "'m QJSValue \<Rightarrow> 'm host \<Rightarrow> bool \<times> 'm host" where
  "validateMapFormatObject v h =
     (let nameProperty = property v ''name'';
          extensionProperty = property v ''extension'';
          writeProperty = property v ''write'';
          readProperty = property v ''read''
      in if \<not> isString nameProperty
         then (False, throwError (tr ''Invalid map format object (requires string 'name' property)'') h)
         else if \<not> isString extensionProperty
         then (False, throwError (tr ''Invalid map format object (requires string 'extension' property)'') h)
         else if \<not> isCallable writeProperty \<and> \<not> isCallable readProperty
         then (False, throwError (tr ''Invalid map format object (requires a 'write' and/or 'read' function property)'') h)
         else (True, h))"

subsection \<open>Calls on a format\<close>

text \<open>The member functions a host can call on a registered format, and the format they leave
  behind. \<open>capabilities\<close>, \<open>nameFilter\<close> and \<open>supportsFile\<close> are \<open>const\<close> member functions.\<close>

datatype 'm member_call =
    CallCapabilities
  | CallNameFilter
  | CallSupportsFile QString
  | CallRead QString
  | CallWrite 'm QString int

fun after_call :: "'m environment \<Rightarrow> filesystem \<Rightarrow> 'm member_call \<Rightarrow> 'm ScriptedMapFormat
    \<Rightarrow> 'm ScriptedMapFormat" where
  "after_call env fs CallCapabilities this = this"
| "after_call env fs CallNameFilter this = this"
| "after_call env fs (CallSupportsFile fileName) this = this"
| "after_call env fs (CallRead fileName) this = snd (ScriptedMapFormat_read env fs this fileName)"
| "after_call env fs (CallWrite m fileName options) this =
     fst (snd (ScriptedMapFormat_write env fs this m fileName options))"

subsection \<open>Example descriptors and environments\<close>

definition example_object :: "nat QJSValue" where
  "example_object =
     JSObject [(''name'', JSString ''Custom''), (''extension'', JSString ''custom''),
               (''read'', JSFunction 0), (''write'', JSFunction 1)]"

definition read_only_object :: "nat QJSValue" where
  "read_only_object =
     JSObject [(''name'', JSString ''Custom''), (''extension'', JSString ''custom''),
               (''read'', JSFunction 0)]"

definition example_format :: "nat ScriptedMapFormat" where
  "example_format = \<lparr>mShortName = ''custom'', mObject = example_object, mError = ''stale''\<rparr>"

definition read_only_format :: "nat ScriptedMapFormat" where
  "read_only_format = \<lparr>mShortName = ''custom'', mObject = read_only_object, mError = ''stale''\<rparr>"

text \<open>An environment without device faults, not on Windows, whose script functions all
  return \<open>v\<close>.\<close>

definition returning :: "nat QJSValue \<Rightarrow> nat environment" where
  "returning v =
     \<lparr>script = const_script v, windows = False, open_fault = None, write_fault = None,
      commit_fault = None\<rparr>"

definition old_files :: filesystem where
  "old_files = [''map.custom'' \<mapsto> [1, 2, 3]]"

definition empty_host :: "nat host" where
  "empty_host = \<lparr>raised = [], objects = []\<rparr>"

section \<open>Properties\<close>

subsection \<open>Text mode and suffixes\<close>

lemma char_of_unat_of_char: "char_of (unat (of_char a :: 8 word)) = a"
proof -
  have "(of_char a :: 8 word) = word_of_nat (of_char a)"
    by (simp only: of_nat_of_char)
  then have "unat (of_char a :: 8 word) = of_char a mod 256"
    by (simp add: unat_of_nat)
  then show ?thesis
    by (simp add: char_of_mod_256)
qed

lemma decode_encode: "decode (encode s) = s"
  by (induction s) (simp_all add: decode_def encode_def char_of_unat_of_char)

lemma strip_cr_crlf: "strip_cr (crlf s) = strip_cr s"
  by (induction s) (simp_all add: strip_cr_def crlf_def CR_def LF_def)

lemma strip_cr_id: "CR \<notin> set s \<Longrightarrow> strip_cr s = s"
  by (induction s) (auto simp: strip_cr_def)

lemma endsWith_suffix: "endsWith s t \<longleftrightarrow> suffix t s"
proof
  assume "endsWith s t"
  then have "s = take (length s - length t) s @ t"
    by (metis append_take_drop_id endsWith_def)
  then show "suffix t s"
    by (metis suffixI)
next
  assume "suffix t s"
  then obtain zs where "s = zs @ t"
    by (auto simp: suffix_def)
  then show "endsWith s t"
    by (simp add: endsWith_def)
qed

subsection \<open>Reading\<close>

text \<open>
  Claim C3. When calling the descriptor's \<open>read\<close> function raises a script error with
  message \<open>M\<close>, \<open>read\<close> returns no map and leaves \<open>M\<close> in \<open>mError\<close>.
\<close>

theorem read_script_error:
  assumes "QJSValue_call (script env) fs (property (mObject this) ''read'')
             [JSQObject (ScriptFileObject \<lparr>mFilePath = fileName, mFileError = []\<rparr>)] = JSError M"
  shows "fst (ScriptedMapFormat_read env fs this fileName) = None
       \<and> mError (snd (ScriptedMapFormat_read env fs this fileName)) = M"
  using assms by (simp add: ScriptedMapFormat_read_def checkError_def)

theorem read_script_error_witness:
  "QJSValue_call (script (returning (JSError ''boom''))) old_files
     (property (mObject example_format) ''read'')
     [JSQObject (ScriptFileObject \<lparr>mFilePath = ''map.custom'', mFileError = []\<rparr>)] = JSError ''boom''
   \<and> fst (ScriptedMapFormat_read (returning (JSError ''boom'')) old_files example_format ''map.custom'') = None
   \<and> mError (snd (ScriptedMapFormat_read (returning (JSError ''boom'')) old_files example_format ''map.custom'')) = ''boom''"
  using read_script_error [of "returning (JSError ''boom'')" old_files example_format "''map.custom''" "''boom''"]
  by (simp add: returning_def const_script_def example_format_def example_object_def)

text \<open>
  Claim C4. When the descriptor's \<open>read\<close> function returns, without raising, a value that is
  not an editable map, \<open>read\<close> returns no map and \<open>mError\<close> is left empty: this failure sets
  no message.
\<close>

theorem read_not_a_map:
  assumes "QJSValue_call (script env) fs (property (mObject this) ''read'')
             [JSQObject (ScriptFileObject \<lparr>mFilePath = fileName, mFileError = []\<rparr>)] = r"
    and "\<not> isError r"
    and "qobject_cast_EditableMap (toQObject r) = None"
  shows "ScriptedMapFormat_read env fs this fileName = (None, this\<lparr>mError := []\<rparr>)"
  using assms by (simp add: ScriptedMapFormat_read_def checkError_def)

theorem read_not_a_map_witness:
  "QJSValue_call (script (returning (JSNumber 42))) old_files
     (property (mObject example_format) ''read'')
     [JSQObject (ScriptFileObject \<lparr>mFilePath = ''map.custom'', mFileError = []\<rparr>)] = JSNumber 42
   \<and> \<not> isError (JSNumber 42 :: nat QJSValue)
   \<and> qobject_cast_EditableMap (toQObject (JSNumber 42 :: nat QJSValue)) = None
   \<and> ScriptedMapFormat_read (returning (JSNumber 42)) old_files example_format ''map.custom''
       = (None, example_format\<lparr>mError := []\<rparr>)"
  using read_not_a_map [of "returning (JSNumber 42)" old_files example_format "''map.custom''" "JSNumber 42"]
  by (simp add: returning_def const_script_def example_format_def example_object_def)

subsection \<open>Writing\<close>

text \<open>
  Claim C2. When the descriptor's \<open>write\<close> function returns a value that is neither a string
  nor binary data, \<open>write\<close> returns false, \<open>mError\<close> is the invalid-return-value message, and
  the files are as they were before the call.
\<close>

theorem write_invalid_return_value:
  assumes "QJSValue_call (script env) fs (property (mObject this) ''write'')
             [JSQObject (EditableMapObject m), JSString fileName, JSNumber options] = r"
    and "\<not> isError r"
    and "\<not> isString r"
    and "qjsvalue_cast_QByteArray r = None"
  shows "ScriptedMapFormat_write env fs this m fileName options =
           (False,
            this\<lparr>mError := ''Invalid return value for 'write' (string or ArrayBuffer expected)''\<rparr>,
            fs)"
  using assms by (simp add: ScriptedMapFormat_write_def checkError_def tr_def)

theorem write_invalid_return_value_witness:
  "QJSValue_call (script (returning (JSNumber 42))) old_files
     (property (mObject example_format) ''write'')
     [JSQObject (EditableMapObject 7), JSString ''map.custom'', JSNumber 0] = JSNumber 42
   \<and> \<not> isError (JSNumber 42 :: nat QJSValue)
   \<and> \<not> isString (JSNumber 42 :: nat QJSValue)
   \<and> qjsvalue_cast_QByteArray (JSNumber 42 :: nat QJSValue) = None
   \<and> ScriptedMapFormat_write (returning (JSNumber 42)) old_files example_format 7 ''map.custom'' 0 =
        (False,
         example_format\<lparr>mError := ''Invalid return value for 'write' (string or ArrayBuffer expected)''\<rparr>,
         old_files)"
  using write_invalid_return_value [of "returning (JSNumber 42)" old_files example_format 7 "''map.custom''" 0 "JSNumber 42"]
  by (simp add: returning_def const_script_def example_format_def example_object_def)

lemmas write_defs = ScriptedMapFormat_write_def checkError_def tr_def SaveFile_new_def
  SaveFile_open_def device_write_def QTextStream_write_def SaveFile_commit_def

text \<open>
  Claim C1. When the write to the staging location fails, or the commit fails, \<open>write\<close>
  returns false, \<open>mError\<close> is the device's error string, and the files are as they were
  before the call. Whenever \<open>write\<close> returns false no file has changed; it returns true
  only when nothing failed, and then the only change is the committed destination.
\<close>

theorem write_failure_is_atomic:
  assumes "QJSValue_call (script env) fs (property (mObject this) ''write'')
             [JSQObject (EditableMapObject m), JSString fileName, JSNumber options] = r"
  shows "(\<not> isError r \<and> (isString r \<or> qjsvalue_cast_QByteArray r \<noteq> None)
            \<and> open_fault env = None \<and> write_fault env = Some e
          \<longrightarrow> ScriptedMapFormat_write env fs this m fileName options
                = (False, this\<lparr>mError := e\<rparr>, fs))
       \<and> (\<not> isError r \<and> (isString r \<or> qjsvalue_cast_QByteArray r \<noteq> None)
            \<and> open_fault env = None \<and> write_fault env = None \<and> commit_fault env = Some e
          \<longrightarrow> ScriptedMapFormat_write env fs this m fileName options
                = (False, this\<lparr>mError := e\<rparr>, fs))
       \<and> (\<not> fst (ScriptedMapFormat_write env fs this m fileName options)
          \<longrightarrow> snd (snd (ScriptedMapFormat_write env fs this m fileName options)) = fs)
       \<and> (fst (ScriptedMapFormat_write env fs this m fileName options)
          \<longrightarrow> open_fault env = None \<and> write_fault env = None \<and> commit_fault env = None
              \<and> (\<exists>bytes. snd (snd (ScriptedMapFormat_write env fs this m fileName options))
                    = fs(fileName \<mapsto> bytes)))"
  using assms
  by (auto simp: write_defs Let_def split: option.splits)

theorem write_failure_is_atomic_witness:
  "ScriptedMapFormat_write ((returning (JSString ''ABC''))\<lparr>write_fault := Some ''No space left on device''\<rparr>)
      old_files example_format 7 ''map.custom'' 0
     = (False, example_format\<lparr>mError := ''No space left on device''\<rparr>, old_files)
   \<and> ScriptedMapFormat_write ((returning (JSArrayBuffer [0, 255, 16]))\<lparr>commit_fault := Some ''Permission denied''\<rparr>)
      old_files example_format 7 ''map.custom'' 0
     = (False, example_format\<lparr>mError := ''Permission denied''\<rparr>, old_files)
   \<and> fst (ScriptedMapFormat_write (returning (JSString ''ABC'')) old_files example_format 7 ''map.custom'' 0)
   \<and> commit_fault (returning (JSString ''ABC'')) = None
   \<and> \<not> fst (ScriptedMapFormat_write (returning (JSNumber 42)) old_files example_format 7 ''map.custom'' 0)
   \<and> snd (snd (ScriptedMapFormat_write (returning (JSNumber 42)) old_files example_format 7 ''map.custom'' 0))
       = old_files"
  using
    write_failure_is_atomic [OF refl,
      of "(returning (JSString ''ABC''))\<lparr>write_fault := Some ''No space left on device''\<rparr>"
         old_files example_format 7 "''map.custom''" 0 "''No space left on device''"]
    write_failure_is_atomic [OF refl,
      of "(returning (JSArrayBuffer [0, 255, 16]))\<lparr>commit_fault := Some ''Permission denied''\<rparr>"
         old_files example_format 7 "''map.custom''" 0 "''Permission denied''"]
    write_failure_is_atomic [OF refl,
      of "returning (JSString ''ABC'')" old_files example_format 7 "''map.custom''" 0]
    write_failure_is_atomic [OF refl,
      of "returning (JSNumber 42)" old_files example_format 7 "''map.custom''" 0]
  by (simp add: returning_def const_script_def example_format_def example_object_def write_defs)

subsection \<open>Writing, then reading back\<close>

lemma write_text_commits:
  assumes "QJSValue_call (script env) fs (property (mObject this) ''write'')
             [JSQObject (EditableMapObject m), JSString fileName, JSNumber options] = JSString s"
    and "ScriptedMapFormat_write env fs this m fileName options = (True, this', fs')"
  shows "fs' fileName = Some (encode (if windows env then crlf s else s))"
  using assms by (auto simp: write_defs Let_def split: option.splits if_splits)

lemma write_binary_commits:
  assumes "QJSValue_call (script env) fs (property (mObject this) ''write'')
             [JSQObject (EditableMapObject m), JSString fileName, JSNumber options] = JSArrayBuffer b"
    and "ScriptedMapFormat_write env fs this m fileName options = (True, this', fs')"
  shows "fs' fileName = Some b"
  using assms by (auto simp: write_defs Let_def split: option.splits if_splits)

lemma readAsText_present:
  "fs (mFilePath file) = Some bytes \<Longrightarrow> fst (readAsText fs file) = strip_cr (decode bytes)"
  by (simp add: readAsText_def QFile_open_read_def QTextStream_readAll_def)

lemma readAsBinary_present:
  "fs (mFilePath file) = Some bytes \<Longrightarrow> fst (readAsBinary fs file) = bytes"
  by (simp add: readAsBinary_def QFile_open_read_def)

lemma write_ABC:
  "ScriptedMapFormat_write (returning (JSString ''ABC'')) old_files example_format 7 ''map.custom'' 0
     = (True, example_format\<lparr>mError := []\<rparr>, old_files(''map.custom'' \<mapsto> encode ''ABC''))"
  by (simp add: returning_def const_script_def example_format_def example_object_def write_defs)

lemma write_bytes:
  "ScriptedMapFormat_write (returning (JSArrayBuffer [0, 255, 16])) old_files example_format 7 ''map.custom'' 0
     = (True, example_format\<lparr>mError := []\<rparr>, old_files(''map.custom'' \<mapsto> [0, 255, 16]))"
  by (simp add: returning_def const_script_def example_format_def example_object_def write_defs)

text \<open>
  Claim C5, as the code has it. After a successful \<open>write\<close>, a script file on the same path
  reads back, with \<open>readAsBinary\<close>, exactly the bytes the script returned; with \<open>readAsText\<close>
  it reads back the string the script returned with its carriage returns removed, which is
  the string itself when it holds no carriage return (as \<open>ABC\<close>).
\<close>

theorem write_then_read_back:
  assumes "ScriptedMapFormat_write env fs this m fileName options = (True, this', fs')"
    and "mFilePath file = fileName"
  shows "(\<forall>s. QJSValue_call (script env) fs (property (mObject this) ''write'')
               [JSQObject (EditableMapObject m), JSString fileName, JSNumber options] = JSString s
             \<longrightarrow> fst (readAsText fs' file) = strip_cr s
                 \<and> (CR \<notin> set s \<longrightarrow> fst (readAsText fs' file) = s))
       \<and> (\<forall>b. QJSValue_call (script env) fs (property (mObject this) ''write'')
               [JSQObject (EditableMapObject m), JSString fileName, JSNumber options] = JSArrayBuffer b
             \<longrightarrow> fst (readAsBinary fs' file) = b)"
proof (intro conjI allI impI)
  fix s
  assume r: "QJSValue_call (script env) fs (property (mObject this) ''write'')
               [JSQObject (EditableMapObject m), JSString fileName, JSNumber options] = JSString s"
  have "fs' (mFilePath file) = Some (encode (if windows env then crlf s else s))"
    using write_text_commits [OF r assms(1)] assms(2) by simp
  then show t: "fst (readAsText fs' file) = strip_cr s"
    by (simp add: readAsText_present decode_encode strip_cr_crlf)
  assume "CR \<notin> set s"
  with t show "fst (readAsText fs' file) = s"
    by (simp add: strip_cr_id)
next
  fix b
  assume r: "QJSValue_call (script env) fs (property (mObject this) ''write'')
               [JSQObject (EditableMapObject m), JSString fileName, JSNumber options] = JSArrayBuffer b"
  have "fs' (mFilePath file) = Some b"
    using write_binary_commits [OF r assms(1)] assms(2) by simp
  then show "fst (readAsBinary fs' file) = b"
    by (simp add: readAsBinary_present)
qed

theorem write_then_read_back_witness:
  "ScriptedMapFormat_write (returning (JSString ''ABC'')) old_files example_format 7 ''map.custom'' 0
     = (True, example_format\<lparr>mError := []\<rparr>, old_files(''map.custom'' \<mapsto> encode ''ABC''))
   \<and> fst (readAsText (old_files(''map.custom'' \<mapsto> encode ''ABC''))
          \<lparr>mFilePath = ''map.custom'', mFileError = []\<rparr>) = ''ABC''
   \<and> ScriptedMapFormat_write (returning (JSArrayBuffer [0, 255, 16])) old_files example_format 7 ''map.custom'' 0
     = (True, example_format\<lparr>mError := []\<rparr>, old_files(''map.custom'' \<mapsto> [0, 255, 16]))
   \<and> fst (readAsBinary (old_files(''map.custom'' \<mapsto> [0, 255, 16]))
          \<lparr>mFilePath = ''map.custom'', mFileError = []\<rparr>) = [0, 255, 16]"
  using
    write_then_read_back [OF write_ABC, of "\<lparr>mFilePath = ''map.custom'', mFileError = []\<rparr>"]
    write_then_read_back [OF write_bytes, of "\<lparr>mFilePath = ''map.custom'', mFileError = []\<rparr>"]
    write_ABC write_bytes
  by (simp add: returning_def const_script_def example_format_def example_object_def CR_def
      strip_cr_def)

text \<open>
  Claim C5 as stated, for every string, does not hold: the script returns the four
  characters A, carriage return, line feed, B; \<open>write\<close> succeeds, and \<open>readAsText\<close> on the
  committed file gives the three characters A, line feed, B.
\<close>

theorem text_round_trip_counterexample:
  "fst (ScriptedMapFormat_write (returning (JSString [CHR ''A'', CR, LF, CHR ''B'']))
          old_files example_format 7 ''map.custom'' 0)
   \<and> fst (readAsText
            (snd (snd (ScriptedMapFormat_write (returning (JSString [CHR ''A'', CR, LF, CHR ''B'']))
                         old_files example_format 7 ''map.custom'' 0)))
            \<lparr>mFilePath = ''map.custom'', mFileError = []\<rparr>)
       = [CHR ''A'', LF, CHR ''B'']
   \<and> [CHR ''A'', LF, CHR ''B''] \<noteq> [CHR ''A'', CR, LF, CHR ''B'']"
  by (simp add: returning_def const_script_def example_format_def example_object_def write_defs
      readAsText_present decode_encode strip_cr_def CR_def LF_def)

subsection \<open>Validation\<close>

text \<open>
  Claim C6. \<open>validateMapFormatObject\<close> returns true exactly when \<open>name\<close> is a string,
  \<open>extension\<close> is a string and \<open>read\<close> or \<open>write\<close> is callable; then it raises nothing.
  Otherwise it returns false and raises one of its three messages through the script
  manager. In both cases it registers nothing.
\<close>

theorem validate_iff:
  "(fst (validateMapFormatObject v h) \<longleftrightarrow>
      isString (property v ''name'') \<and> isString (property v ''extension'')
      \<and> (isCallable (property v ''read'') \<or> isCallable (property v ''write'')))
   \<and> (fst (validateMapFormatObject v h) \<longrightarrow> snd (validateMapFormatObject v h) = h)
   \<and> (\<not> fst (validateMapFormatObject v h) \<longrightarrow>
        (\<exists>msg. (msg = ''Invalid map format object (requires string 'name' property)''
                \<or> msg = ''Invalid map format object (requires string 'extension' property)''
                \<or> msg = ''Invalid map format object (requires a 'write' and/or 'read' function property)'')
              \<and> raised (snd (validateMapFormatObject v h)) = raised h @ [msg]))
   \<and> objects (snd (validateMapFormatObject v h)) = objects h"
proof (cases "isString (property v ''name'')")
  case False
  then show ?thesis
    by (simp add: validateMapFormatObject_def throwError_def tr_def)
next
  case name: True
  show ?thesis
  proof (cases "isString (property v ''extension'')")
    case False
    with name show ?thesis
      by (simp add: validateMapFormatObject_def throwError_def tr_def)
  next
    case True
    with name show ?thesis
      by (auto simp: validateMapFormatObject_def throwError_def tr_def)
  qed
qed

theorem validate_iff_witness:
  "fst (validateMapFormatObject example_object empty_host)
   \<and> snd (validateMapFormatObject example_object empty_host) = empty_host
   \<and> \<not> fst (validateMapFormatObject (JSObject [(''extension'', JSString ''custom''), (''read'', JSFunction 0)]) empty_host)
   \<and> objects (snd (validateMapFormatObject (JSObject [(''extension'', JSString ''custom''), (''read'', JSFunction 0)]) empty_host)) = []
   \<and> length (raised (snd (validateMapFormatObject (JSObject [(''extension'', JSString ''custom''), (''read'', JSFunction 0)]) empty_host))) = 1"
  using validate_iff [of example_object empty_host]
    validate_iff [of "JSObject [(''extension'', JSString ''custom''), (''read'', JSFunction 0)]" empty_host]
  by (auto simp: example_object_def empty_host_def)

text \<open>
  Claim C10. The requirements are checked in the order name, extension, functions, and only
  the message of the first violated one is raised: a \<open>name\<close> that is not a string gives the
  name message whatever the other properties are.
\<close>

theorem validate_first_violation:
  "(\<not> isString (property v ''name'') \<longrightarrow>
      validateMapFormatObject v h =
        (False, h\<lparr>raised := raised h @ [''Invalid map format object (requires string 'name' property)'']\<rparr>))
   \<and> (isString (property v ''name'') \<and> \<not> isString (property v ''extension'') \<longrightarrow>
      validateMapFormatObject v h =
        (False, h\<lparr>raised := raised h @ [''Invalid map format object (requires string 'extension' property)'']\<rparr>))
   \<and> (isString (property v ''name'') \<and> isString (property v ''extension'')
        \<and> \<not> isCallable (property v ''write'') \<and> \<not> isCallable (property v ''read'') \<longrightarrow>
      validateMapFormatObject v h =
        (False, h\<lparr>raised := raised h @ [''Invalid map format object (requires a 'write' and/or 'read' function property)'']\<rparr>))"
  by (simp add: validateMapFormatObject_def throwError_def tr_def Let_def)

theorem validate_first_violation_witness:
  "validateMapFormatObject (JSObject [(''name'', JSNumber 1), (''extension'', JSNull)]) empty_host =
     (False, empty_host\<lparr>raised := [''Invalid map format object (requires string 'name' property)'']\<rparr>)
   \<and> validateMapFormatObject (JSObject [(''name'', JSString ''Custom''), (''extension'', JSNull)]) empty_host =
     (False, empty_host\<lparr>raised := [''Invalid map format object (requires string 'extension' property)'']\<rparr>)
   \<and> validateMapFormatObject (JSObject [(''name'', JSString ''Custom''), (''extension'', JSString ''custom'')]) empty_host =
     (False, empty_host\<lparr>raised := [''Invalid map format object (requires a 'write' and/or 'read' function property)'']\<rparr>)"
  using validate_first_violation [of "JSObject [(''name'', JSNumber 1), (''extension'', JSNull)]" empty_host]
    validate_first_violation [of "JSObject [(''name'', JSString ''Custom''), (''extension'', JSNull)]" empty_host]
    validate_first_violation [of "JSObject [(''name'', JSString ''Custom''), (''extension'', JSString ''custom'')]" empty_host]
  by (simp add: empty_host_def)

subsection \<open>Capabilities and file names\<close>

text \<open>
  Claim C7. \<open>capabilities\<close> holds \<open>Read\<close> exactly when the descriptor's \<open>read\<close> is callable and
  \<open>Write\<close> exactly when its \<open>write\<close> is callable; a descriptor with only a callable \<open>read\<close>
  gives \<open>{Read}\<close>. The flags are computed from the descriptor the format holds at the time
  of the query.
\<close>

theorem capabilities_from_descriptor:
  "(Read \<in> capabilities this \<longleftrightarrow> isCallable (property (mObject this) ''read''))
   \<and> (Write \<in> capabilities this \<longleftrightarrow> isCallable (property (mObject this) ''write''))
   \<and> (isCallable (property (mObject this) ''read'') \<and> \<not> isCallable (property (mObject this) ''write'')
        \<longrightarrow> capabilities this = {Read})
   \<and> capabilities (this\<lparr>mObject := obj\<rparr>) =
        (if isCallable (property obj ''read'') then {Read} else {})
        \<union> (if isCallable (property obj ''write'') then {Write} else {})"
  by (auto simp: capabilities_def Let_def)

theorem capabilities_from_descriptor_witness:
  "isCallable (property (mObject read_only_format) ''read'')
   \<and> \<not> isCallable (property (mObject read_only_format) ''write'')
   \<and> capabilities read_only_format = {Read}
   \<and> capabilities (read_only_format\<lparr>mObject := example_object\<rparr>) = {Read, Write}"
  using capabilities_from_descriptor [of read_only_format example_object]
  by (auto simp: read_only_format_def read_only_object_def example_object_def)

text \<open>
  Claim C8. \<open>supportsFile\<close> is true exactly when the file name ends, character for character,
  with a dot followed by the string form of the descriptor's \<open>extension\<close>, which for a
  string extension is the extension itself.
\<close>

theorem supportsFile_iff:
  "(supportsFile this fileName \<longleftrightarrow>
      (\<exists>pre. fileName = pre @ ''.'' @ toString (property (mObject this) ''extension'')))
   \<and> (property (mObject this) ''extension'' = JSString ext \<longrightarrow>
        (supportsFile this fileName \<longleftrightarrow> (\<exists>pre. fileName = pre @ ''.'' @ ext)))"
proof -
  have "supportsFile this fileName \<longleftrightarrow>
          suffix (CHR ''.'' # toString (property (mObject this) ''extension'')) fileName"
    by (simp add: supportsFile_def endsWith_suffix)
  then have "supportsFile this fileName \<longleftrightarrow>
          (\<exists>pre. fileName = pre @ ''.'' @ toString (property (mObject this) ''extension''))"
    by (simp add: suffix_def)
  then show ?thesis
    by auto
qed

theorem supportsFile_iff_witness:
  "property (mObject example_format) ''extension'' = JSString ''custom''
   \<and> supportsFile example_format ''map.custom''
   \<and> \<not> supportsFile example_format ''map.customx''
   \<and> \<not> supportsFile example_format ''map.other''
   \<and> \<not> supportsFile example_format ''map.CUSTOM''"
proof -
  have ext: "property (mObject example_format) ''extension'' = JSString ''custom''"
    by (simp add: example_format_def example_object_def)
  have "\<exists>pre. ''map.custom'' = pre @ ''.'' @ ''custom''"
    by (rule exI [of _ "''map''"]) simp
  with ext supportsFile_iff [of example_format "''map.custom''" "''custom''"]
  have "supportsFile example_format ''map.custom''"
    by blast
  moreover have "\<not> supportsFile example_format ''map.customx''"
    by (simp add: supportsFile_def endsWith_def example_format_def example_object_def)
  moreover have "\<not> supportsFile example_format ''map.other''"
    by (simp add: supportsFile_def endsWith_def example_format_def example_object_def)
  moreover have "\<not> supportsFile example_format ''map.CUSTOM''"
    by (simp add: supportsFile_def endsWith_def example_format_def example_object_def)
  ultimately show ?thesis using ext by blast
qed

subsection \<open>The error string\<close>

lemma read_ignores_stale:
  "ScriptedMapFormat_read env fs (this\<lparr>mError := e\<rparr>) fileName
     = ScriptedMapFormat_read env fs (this\<lparr>mError := []\<rparr>) fileName"
  by (simp add: ScriptedMapFormat_read_def)

lemma write_ignores_stale:
  "ScriptedMapFormat_write env fs (this\<lparr>mError := e\<rparr>) m fileName options
     = ScriptedMapFormat_write env fs (this\<lparr>mError := []\<rparr>) m fileName options"
  by (simp add: ScriptedMapFormat_write_def)

lemma read_error_after:
  "mError (snd (ScriptedMapFormat_read env fs this fileName)) =
     (if isError (QJSValue_call (script env) fs (property (mObject this) ''read'')
                    [JSQObject (ScriptFileObject \<lparr>mFilePath = fileName, mFileError = []\<rparr>)])
      then toString (QJSValue_call (script env) fs (property (mObject this) ''read'')
                    [JSQObject (ScriptFileObject \<lparr>mFilePath = fileName, mFileError = []\<rparr>)])
      else [])"
  by (simp add: ScriptedMapFormat_read_def checkError_def Let_def split: option.splits)

lemma write_success_error_empty:
  "fst (ScriptedMapFormat_write env fs this m fileName options)
   \<Longrightarrow> mError (fst (snd (ScriptedMapFormat_write env fs this m fileName options))) = []"
  by (auto simp: write_defs Let_def split: option.splits if_splits)

text \<open>
  Claim C9. \<open>read\<close> and \<open>write\<close> clear \<open>mError\<close> first: what they leave behind does not depend
  on the error string they found, and it is empty unless the call itself stored a message
  (after a \<open>read\<close> whose script raised nothing, after a \<open>write\<close> that returned true). A call
  of \<open>capabilities\<close>, \<open>nameFilter\<close> or \<open>supportsFile\<close> leaves the format, and so its stale
  \<open>mError\<close>, as it was; constructing a format adds it to the registered objects and changes
  none of those already there.
\<close>

theorem mError_reset_only_by_read_write:
  "after_call env fs (CallRead fileName) (this\<lparr>mError := e\<rparr>)
      = after_call env fs (CallRead fileName) (this\<lparr>mError := []\<rparr>)
   \<and> after_call env fs (CallWrite m fileName options) (this\<lparr>mError := e\<rparr>)
      = after_call env fs (CallWrite m fileName options) (this\<lparr>mError := []\<rparr>)
   \<and> (\<not> isError (QJSValue_call (script env) fs (property (mObject this) ''read'')
                    [JSQObject (ScriptFileObject \<lparr>mFilePath = fileName, mFileError = []\<rparr>)])
        \<longrightarrow> mError (after_call env fs (CallRead fileName) this) = [])
   \<and> (fst (ScriptedMapFormat_write env fs this m fileName options)
        \<longrightarrow> mError (after_call env fs (CallWrite m fileName options) this) = [])
   \<and> (c \<in> {CallCapabilities, CallNameFilter, CallSupportsFile fileName}
        \<longrightarrow> after_call env fs c this = this)
   \<and> objects (snd (ScriptedMapFormat_new shortName obj h))
        = objects h @ [fst (ScriptedMapFormat_new shortName obj h)]"
  using read_ignores_stale [where env = env and fs = fs and this = this and e = e and fileName = fileName]
    write_ignores_stale [where env = env and fs = fs and this = this and e = e and m = m
      and fileName = fileName and options = options]
    read_error_after [where env = env and fs = fs and this = this and fileName = fileName]
    write_success_error_empty [where env = env and fs = fs and this = this and m = m
      and fileName = fileName and options = options]
  by (auto simp: ScriptedMapFormat_new_def Let_def)

theorem mError_reset_only_by_read_write_witness:
  "mError example_format = ''stale''
   \<and> \<not> isError (QJSValue_call (script (returning (JSQObject (EditableMapObject 5)))) old_files
          (property (mObject example_format) ''read'')
          [JSQObject (ScriptFileObject \<lparr>mFilePath = ''map.custom'', mFileError = []\<rparr>)])
   \<and> mError (after_call (returning (JSQObject (EditableMapObject 5))) old_files (CallRead ''map.custom'') example_format) = []
   \<and> fst (ScriptedMapFormat_write (returning (JSString ''ABC'')) old_files example_format 7 ''map.custom'' 0)
   \<and> mError (after_call (returning (JSString ''ABC'')) old_files (CallWrite 7 ''map.custom'' 0) example_format) = []
   \<and> mError (after_call (returning (JSString ''ABC'')) old_files CallCapabilities example_format) = ''stale''"
  using
    mError_reset_only_by_read_write [where env = "returning (JSQObject (EditableMapObject 5))"
      and fs = old_files and fileName = "''map.custom''" and this = example_format
      and c = CallCapabilities and m = 7 and options = 0 and e = "''stale''"
      and shortName = "''custom''" and obj = example_object and h = empty_host]
    mError_reset_only_by_read_write [where env = "returning (JSString ''ABC'')"
      and fs = old_files and fileName = "''map.custom''" and this = example_format
      and c = CallCapabilities and m = 7 and options = 0 and e = "''stale''"
      and shortName = "''custom''" and obj = example_object and h = empty_host]
  by (simp add: returning_def const_script_def example_format_def example_object_def write_defs
      ScriptedMapFormat_read_def)

end
